theory Spec2Isabelle
  imports Main "HOL-Library.Char_ord" "HOL-Library.List_Lexorder" "HOL-Library.Word"
begin

section \<open>Values and helpers\<close>

text \<open>
  The service of \<^verbatim>\<open>main.py\<close> keeps four JSON files (users, quiz submissions, PDF files,
  chapter observations), each a list of dictionaries that a handler reads whole, changes in
  memory and writes back. A handler is modelled as a function from the request and the lists it
  reads to the lists it writes and its response; the clock and the UUID generator are inputs.
  \<^verbatim>\<open>sync_git\<close>, which a handler calls after writing, changes neither the lists nor the response
  and is left out, as are the log lines.

  JSON values, as far as the handlers look at them. Numbers are Python integers; a dictionary is
  an association list in insertion order.
\<close>

datatype json =
    JNull
  | JBool bool
  | JInt int
  | JStr string
  | JList "json list"
  | JObj "(string \<times> json) list"

text \<open>Python's truth value of a JSON value (\<^verbatim>\<open>not x\<close> is its negation).\<close>

fun truthy :: "json \<Rightarrow> bool" where
  "truthy JNull = False"
| "truthy (JBool b) = b"
| "truthy (JInt n) = (n \<noteq> 0)"
| "truthy (JStr s) = (s \<noteq> [])"
| "truthy (JList xs) = (xs \<noteq> [])"
| "truthy (JObj kvs) = (kvs \<noteq> [])"

text \<open>\<^verbatim>\<open>d.get(k)\<close> on a response dictionary.\<close>

fun jget :: "json \<Rightarrow> string \<Rightarrow> json option" where
  "jget (JObj kvs) k = map_of kvs k"
| "jget _ k = None"

text \<open>\<^verbatim>\<open>str(n)\<close> for a non-negative integer, as the f-strings format lengths and indices.\<close>

fun str_nat :: "nat \<Rightarrow> string" where
  "str_nat n =
     (if n < 10 then [''0123456789'' ! n]
      else str_nat (n div 10) @ [''0123456789'' ! (n mod 10)])"

declare str_nat.simps [simp del]

text \<open>\<^verbatim>\<open>raise HTTPException(status_code=..., detail=...)\<close>.\<close>

datatype http_error = HTTPException nat string

section \<open>Request models and stored records\<close>

text \<open>
  The request models. A primed field (\<open>chapter'\<close>, \<open>class'\<close>, \<open>submissions'\<close>) stands for the
  key of that name without the prime.
\<close>

record SignUpRequest =
  email :: string
  chapter_name :: string

record BulkSubmissionItem =
  q1 :: "int list"
  q2 :: "int list"
  q3 :: "int list"
  q4 :: "int list"
  q5 :: "int list"
  q6 :: "int list"
  q7 :: "int list"
  q8 :: "int list"
  q9 :: "int list"
  q10 :: "int list"
  q11 :: "int list"
  q12 :: "int list"
  q13 :: "int list"
  c1 :: int
  c2 :: int
  c3 :: int
  c4 :: int
  c5 :: int

record QuizSubmission =
  email :: string
  chapter' :: string
  name :: string
  school :: string
  class' :: string
  q1 :: "int list"
  q2 :: "int list"
  q3 :: "int list"
  q4 :: "int list"
  q5 :: "int list"
  q6 :: "int list"
  q7 :: "int list"
  q8 :: "int list"
  q9 :: "int list"
  q10 :: "int list"
  q11 :: "int list"
  q12 :: "int list"
  q13 :: "int list"
  c1 :: int
  c2 :: int
  c3 :: int
  c4 :: int
  c5 :: int

record BulkUploadRequest =
  chapter' :: string
  school :: string
  submissions' :: "BulkSubmissionItem list"

text \<open>A dictionary of \<^verbatim>\<open>users.json\<close>, as \<^verbatim>\<open>signup\<close> builds it.\<close>

record user =
  email :: string
  user_id :: string
  chapter' :: string
  created_at :: string

text \<open>
  A dictionary of \<^verbatim>\<open>quiz_submissions.json\<close>, as \<^verbatim>\<open>upload_quiz\<close> and
  \<^verbatim>\<open>bulk_upload_quiz\<close> build it. The field \<open>class'\<close> is the key \<^verbatim>\<open>"class"\<close>.
\<close>

record quiz =
  email :: string
  chapter' :: string
  name :: string
  school :: string
  class' :: string
  q1 :: "int list"
  q2 :: "int list"
  q3 :: "int list"
  q4 :: "int list"
  q5 :: "int list"
  q6 :: "int list"
  q7 :: "int list"
  q8 :: "int list"
  q9 :: "int list"
  q10 :: "int list"
  q11 :: "int list"
  q12 :: "int list"
  q13 :: "int list"
  c1 :: int
  c2 :: int
  c3 :: int
  c4 :: int
  c5 :: int
  created_at :: string

record observation =
  obs_chapter :: string
  obs_data :: json
  obs_updated_at :: string

text \<open>
  A dictionary of \<^verbatim>\<open>pdf_files.json\<close>; \<open>pdf_content\<close> is the key \<^verbatim>\<open>content\<close>, the hex
  text of the file.
\<close>

record pdf_entry =
  pdf_filename :: string
  pdf_content :: string
  pdf_email :: string
  pdf_uploaded_at :: string

section \<open>Helper functions for the JSON lists\<close>

text \<open>
  \<^verbatim>\<open>find_one(data_list, query)\<close>: the first item that agrees with the query on every key of
  the query. A query dictionary \<^verbatim>\<open>{"email": e}\<close> is the predicate \<open>\<lambda>item. email item = e\<close>.
\<close>

fun find_one :: "'a list \<Rightarrow> ('a \<Rightarrow> bool) \<Rightarrow> 'a option" where
  "find_one [] query = None"
| "find_one (item # data_list) query =
     (if query item then Some item else find_one data_list query)"

text \<open>
  \<^verbatim>\<open>update_one(data_list, query, update)\<close> changes the first matching item in place and says
  whether there was one; the model returns the flag and the new list.
\<close>

fun update_one :: "'a list \<Rightarrow> ('a \<Rightarrow> bool) \<Rightarrow> ('a \<Rightarrow> 'a) \<Rightarrow> bool \<times> 'a list" where
  "update_one [] query update = (False, [])"
| "update_one (item # data_list) query update =
     (if query item then (True, update item # data_list)
      else (case update_one data_list query update of
              (found, data_list') \<Rightarrow> (found, item # data_list')))"

section \<open>Chapter data\<close>

definition q_key :: "nat \<Rightarrow> string" where
  "q_key q_num = ''q'' @ str_nat q_num"

definition ride_key :: "nat \<Rightarrow> string" where
  "ride_key ride_index = ''ride_'' @ str_nat ride_index"

text \<open>
  \<^verbatim>\<open>submission[f"q{q_num}"]\<close>. The loops take \<open>q_num\<close> from \<^verbatim>\<open>range(1, 14)\<close> only; any
  other key would be a \<^verbatim>\<open>KeyError\<close>.
\<close>

definition getitem_q :: "quiz \<Rightarrow> nat \<Rightarrow> int list" where
  "getitem_q submission q_num =
     (if q_num = 1 then quiz.q1 submission
      else if q_num = 2 then quiz.q2 submission
      else if q_num = 3 then quiz.q3 submission
      else if q_num = 4 then quiz.q4 submission
      else if q_num = 5 then quiz.q5 submission
      else if q_num = 6 then quiz.q6 submission
      else if q_num = 7 then quiz.q7 submission
      else if q_num = 8 then quiz.q8 submission
      else if q_num = 9 then quiz.q9 submission
      else if q_num = 10 then quiz.q10 submission
      else if q_num = 11 then quiz.q11 submission
      else if q_num = 12 then quiz.q12 submission
      else if q_num = 13 then quiz.q13 submission
      else undefined)"

text \<open>
  The branch of \<^verbatim>\<open>get_chapter_data\<close> for a specific chapter (the code after the
  \<^verbatim>\<open>ALL_Chapter\<close> branch), given the chapter of the user and the two lists.
\<close>

definition chapter_data :: "string \<Rightarrow> quiz list \<Rightarrow> observation list \<Rightarrow> json" where
  "chapter_data chapter submissions observations =
     (let chapter_submissions = filter (\<lambda>s. quiz.chapter' s = chapter) submissions;
          chapter_observation = find_one observations (\<lambda>item. obs_chapter item = chapter)
      in if chapter_submissions = [] \<and> chapter_observation = None then
           JObj [(''chapter'', JStr chapter),
                 (''total_submissions'', JInt 0),
                 (''question_stats'', JObj []),
                 (''observation'', JNull)]
         else
           let stats = map (\<lambda>q_num.
                 (q_key q_num,
                  JObj [(''total_submissions'', JInt (int (length chapter_submissions))),
                        (''rides'', JObj (map (\<lambda>ride_index.
                           let ones = sum_list (map (\<lambda>submission. 1)
                                 (filter (\<lambda>submission.
                                    length (getitem_q submission q_num) > ride_index \<and>
                                    getitem_q submission q_num ! ride_index = 1)
                                  chapter_submissions));
                               zeros = sum_list (map (\<lambda>submission. 1)
                                 (filter (\<lambda>submission.
                                    length (getitem_q submission q_num) > ride_index \<and>
                                    getitem_q submission q_num ! ride_index = 0)
                                  chapter_submissions))
                           in (ride_key ride_index,
                               JObj [(''ones'', JInt ones),
                                     (''zeros'', JInt zeros),
                                     (''total'', JInt (ones + zeros))]))
                         [0..<7]))]))
                 [1..<14]
           in JObj [(''chapter'', JStr chapter),
                    (''total_submissions'', JInt (int (length chapter_submissions))),
                    (''question_stats'', JObj stats),
                    (''observation'',
                       (case chapter_observation of
                          Some item \<Rightarrow> obs_data item
                        | None \<Rightarrow> JNull))])"

text \<open>
  \<^verbatim>\<open>get_chapter_data\<close>, the handler of \<^verbatim>\<open>/chapter-data\<close>. The payload's \<^verbatim>\<open>user_id\<close> is
  absent (\<open>None\<close>) or a string. The loop of the \<^verbatim>\<open>ALL_Chapter\<close> branch, which fills the
  dictionary \<^verbatim>\<open>all_chapter_data\<close> chapter by chapter, is \<open>all_chapter_data\<close>.
\<close>

definition all_chapter_data :: "quiz list \<Rightarrow> observation list \<Rightarrow> (string \<times> json) list" where
  "all_chapter_data submissions observations =
     (let chapters = sorted_list_of_set
            (set (map quiz.chapter' submissions) \<union> set (map obs_chapter observations))
      in map (\<lambda>chapter_name.
           let chapter_submissions = filter (\<lambda>s. quiz.chapter' s = chapter_name) submissions;
               chapter_observation =
                 find_one observations (\<lambda>item. obs_chapter item = chapter_name);
               chapter_stats = map (\<lambda>q_num.
                 (q_key q_num,
                  JObj [(''total_submissions'', JInt (int (length chapter_submissions))),
                        (''rides'', JObj (map (\<lambda>ride_index.
                           let ones = sum_list (map (\<lambda>submission. 1)
                                 (filter (\<lambda>submission.
                                    length (getitem_q submission q_num) > ride_index \<and>
                                    getitem_q submission q_num ! ride_index = 1)
                                  chapter_submissions));
                               zeros = sum_list (map (\<lambda>submission. 1)
                                 (filter (\<lambda>submission.
                                    length (getitem_q submission q_num) > ride_index \<and>
                                    getitem_q submission q_num ! ride_index = 0)
                                  chapter_submissions))
                           in (ride_key ride_index,
                               JObj [(''ones'', JInt ones),
                                     (''zeros'', JInt zeros),
                                     (''total'', JInt (ones + zeros))]))
                         [0..<7]))]))
                 [1..<14]
           in (chapter_name,
               JObj [(''total_submissions'', JInt (int (length chapter_submissions))),
                     (''question_stats'', JObj chapter_stats),
                     (''observation'',
                        (case chapter_observation of
                           Some item \<Rightarrow> obs_data item
                         | None \<Rightarrow> JNull))]))
         chapters)"

definition get_chapter_data ::
  "string option \<Rightarrow> user list \<Rightarrow> quiz list \<Rightarrow> observation list \<Rightarrow> http_error + json" where
  "get_chapter_data payload_user_id users submissions observations =
     (case payload_user_id of
        None \<Rightarrow> Inl (HTTPException 400 (''Missing '' @ [CHR 0x27] @ ''user_id'' @ [CHR 0x27]))
      | Some uid \<Rightarrow>
          if uid = [] then
            Inl (HTTPException 400 (''Missing '' @ [CHR 0x27] @ ''user_id'' @ [CHR 0x27]))
          else
            (case find_one users (\<lambda>item. user.user_id item = uid) of
               None \<Rightarrow> Inl (HTTPException 404 ''User not found'')
             | Some user \<Rightarrow>
                 let chapter = user.chapter' user
                 in if chapter = ''ALL_Chapter'' then
                      Inr (JObj [(''chapter'', JStr ''ALL_Chapter''),
                                 (''chapters'', JObj (all_chapter_data submissions observations))])
                    else Inr (chapter_data chapter submissions observations)))"

text \<open>
  Readers of a response: \<open>ride_of result q r\<close> is
  \<^verbatim>\<open>result["question_stats"][f"q{q}"]["rides"][f"ride_{r}"]\<close>, \<open>entries\<close> the items of a
  dictionary, \<open>question_stats_of\<close> and \<open>rides_of\<close> the items under these two keys.
\<close>

definition ride_of :: "json \<Rightarrow> nat \<Rightarrow> nat \<Rightarrow> json option" where
  "ride_of result q_num ride_index =
     (case jget result ''question_stats'' of
        None \<Rightarrow> None
      | Some stats \<Rightarrow>
          (case jget stats (q_key q_num) of
             None \<Rightarrow> None
           | Some question_stats \<Rightarrow>
               (case jget question_stats ''rides'' of
                  None \<Rightarrow> None
                | Some rides \<Rightarrow> jget rides (ride_key ride_index))))"

fun entries :: "json \<Rightarrow> (string \<times> json) list" where
  "entries (JObj kvs) = kvs"
| "entries _ = []"

definition question_stats_of :: "json \<Rightarrow> (string \<times> json) list" where
  "question_stats_of result =
     (case jget result ''question_stats'' of None \<Rightarrow> [] | Some stats \<Rightarrow> entries stats)"

definition rides_of :: "json \<Rightarrow> (string \<times> json) list" where
  "rides_of question_stats =
     (case jget question_stats ''rides'' of None \<Rightarrow> [] | Some rides \<Rightarrow> entries rides)"

section \<open>Signup\<close>

text \<open>
  \<^verbatim>\<open>signup\<close>. \<open>uuid4\<close> is the text of \<^verbatim>\<open>uuid.uuid4()\<close> and \<open>now\<close> that of
  \<^verbatim>\<open>datetime.utcnow().isoformat()\<close>. The result is the content of \<^verbatim>\<open>users.json\<close> after the
  call (written only on success) and the response.
\<close>

definition signup ::
  "string \<Rightarrow> string \<Rightarrow> SignUpRequest \<Rightarrow> user list \<Rightarrow> user list \<times> (http_error + user)" where
  "signup uuid4 now request users =
     (if find_one users (\<lambda>item. user.email item = SignUpRequest.email request) \<noteq> None then
        (users, Inl (HTTPException 400 ''Email already registered''))
      else if find_one users (\<lambda>item. user.chapter' item = chapter_name request) \<noteq> None then
        (users, Inl (HTTPException 400 ''Chapter already registered''))
      else
        let user = \<lparr>user.email = SignUpRequest.email request,
                    user_id = uuid4,
                    user.chapter' = chapter_name request,
                    user.created_at = now\<rparr>
        in (users @ [user], Inr user))"

section \<open>Quiz upload and lookup by email\<close>

text \<open>
  \<^verbatim>\<open>item.update(update)\<close> on a stored submission: every key of \<open>update\<close> is written into
  \<open>item\<close>.
\<close>

definition dict_update :: "quiz \<Rightarrow> quiz \<Rightarrow> quiz" where
  "dict_update item update =
     item\<lparr>email := quiz.email update, chapter' := quiz.chapter' update,
          name := quiz.name update, school := quiz.school update,
          class' := quiz.class' update, q1 := quiz.q1 update, q2 := quiz.q2 update,
          q3 := quiz.q3 update, q4 := quiz.q4 update, q5 := quiz.q5 update,
          q6 := quiz.q6 update, q7 := quiz.q7 update, q8 := quiz.q8 update,
          q9 := quiz.q9 update, q10 := quiz.q10 update, q11 := quiz.q11 update,
          q12 := quiz.q12 update, q13 := quiz.q13 update, c1 := quiz.c1 update,
          c2 := quiz.c2 update, c3 := quiz.c3 update, c4 := quiz.c4 update,
          c5 := quiz.c5 update, created_at := quiz.created_at update\<rparr>"

text \<open>
  The dictionary \<^verbatim>\<open>quiz\<close> of \<^verbatim>\<open>upload_quiz\<close>: \<^verbatim>\<open>data.dict()\<close> with \<^verbatim>\<open>class_\<close> renamed to
  \<^verbatim>\<open>class\<close> and \<^verbatim>\<open>created_at\<close> set to \<open>now\<close>, the text of \<^verbatim>\<open>datetime.utcnow().isoformat()\<close>.
\<close>

definition quiz_dict :: "string \<Rightarrow> QuizSubmission \<Rightarrow> quiz" where
  "quiz_dict now data =
     \<lparr>email = QuizSubmission.email data,
      chapter' = QuizSubmission.chapter' data, name = QuizSubmission.name data,
      school = QuizSubmission.school data, class' = QuizSubmission.class' data,
      q1 = QuizSubmission.q1 data, q2 = QuizSubmission.q2 data,
      q3 = QuizSubmission.q3 data, q4 = QuizSubmission.q4 data,
      q5 = QuizSubmission.q5 data, q6 = QuizSubmission.q6 data,
      q7 = QuizSubmission.q7 data, q8 = QuizSubmission.q8 data,
      q9 = QuizSubmission.q9 data, q10 = QuizSubmission.q10 data,
      q11 = QuizSubmission.q11 data, q12 = QuizSubmission.q12 data,
      q13 = QuizSubmission.q13 data, c1 = QuizSubmission.c1 data,
      c2 = QuizSubmission.c2 data, c3 = QuizSubmission.c3 data,
      c4 = QuizSubmission.c4 data, c5 = QuizSubmission.c5 data,
      created_at = now\<rparr>"

text \<open>
  \<^verbatim>\<open>upload_quiz\<close>: the content of \<^verbatim>\<open>quiz_submissions.json\<close> after the call, and the response.
\<close>

definition upload_quiz :: "string \<Rightarrow> QuizSubmission \<Rightarrow> quiz list \<Rightarrow> quiz list \<times> json" where
  "upload_quiz now data submissions =
     (let quiz = quiz_dict now data;
          existing_submission =
            find_one submissions (\<lambda>item. quiz.email item = quiz.email quiz)
      in ((if existing_submission \<noteq> None then
             snd (update_one submissions (\<lambda>item. quiz.email item = quiz.email quiz)
                    (\<lambda>item. dict_update item quiz))
           else submissions @ [quiz]),
          JObj [(''message'', JStr ''Quiz submission saved successfully'')]))"

text \<open>
  A stored submission as the JSON object a response carries, the keys in the order in which
  \<^verbatim>\<open>upload_quiz\<close> inserts them (a bulk record has \<^verbatim>\<open>class\<close> before \<^verbatim>\<open>q1\<close>).
\<close>

definition quiz_json :: "quiz \<Rightarrow> json" where
  "quiz_json s =
     JObj ([(''email'', JStr (quiz.email s)), (''chapter'', JStr (quiz.chapter' s)),
            (''name'', JStr (quiz.name s)), (''school'', JStr (quiz.school s))] @
           map (\<lambda>q_num. (''q'' @ str_nat q_num,
                  JList (map JInt
                    (if q_num = 1 then quiz.q1 s else if q_num = 2 then quiz.q2 s
                     else if q_num = 3 then quiz.q3 s else if q_num = 4 then quiz.q4 s
                     else if q_num = 5 then quiz.q5 s else if q_num = 6 then quiz.q6 s
                     else if q_num = 7 then quiz.q7 s else if q_num = 8 then quiz.q8 s
                     else if q_num = 9 then quiz.q9 s else if q_num = 10 then quiz.q10 s
                     else if q_num = 11 then quiz.q11 s else if q_num = 12 then quiz.q12 s
                     else quiz.q13 s)))) [1..<14] @
           [(''c1'', JInt (quiz.c1 s)), (''c2'', JInt (quiz.c2 s)), (''c3'', JInt (quiz.c3 s)),
            (''c4'', JInt (quiz.c4 s)), (''c5'', JInt (quiz.c5 s)),
            (''class'', JStr (quiz.class' s)), (''created_at'', JStr (quiz.created_at s))])"

definition check_email_exists :: "string \<Rightarrow> quiz list \<Rightarrow> json" where
  "check_email_exists email_arg submissions =
     (let exists = (find_one submissions (\<lambda>item. quiz.email item = email_arg) \<noteq> None)
      in JObj [(''exists'', JBool exists)])"

definition get_data_by_email :: "string \<Rightarrow> quiz list \<Rightarrow> json" where
  "get_data_by_email email_arg submissions =
     (let data = filter (\<lambda>s. quiz.email s = email_arg) submissions
      in JObj [(''data'', JList (map quiz_json data))])"

section \<open>Bulk upload\<close>

text \<open>
  The loop of \<^verbatim>\<open>bulk_upload_quiz\<close>. Each round reads the clock twice: \<open>timestamp i\<close> is the
  text of \<^verbatim>\<open>datetime.utcnow().timestamp()\<close> in round \<open>i\<close> and \<open>isoformat i\<close> that of
  \<^verbatim>\<open>datetime.utcnow().isoformat()\<close>.
\<close>

text \<open>
  The dictionary \<^verbatim>\<open>new_submission\<close> of one round, where \<open>n\<close> is \<^verbatim>\<open>len(submissions)\<close> at that
  moment and \<open>timestamp\<close>, \<open>isoformat\<close> are the two clock readings of the round.
\<close>

definition new_submission ::
  "string \<Rightarrow> string \<Rightarrow> BulkUploadRequest \<Rightarrow> BulkSubmissionItem \<Rightarrow> nat \<Rightarrow> quiz" where
  "new_submission timestamp isoformat data submission n =
     \<lparr>email = ''bulk_'' @ timestamp @ ''_'' @ str_nat n,
      chapter' = BulkUploadRequest.chapter' data,
      name = ''Bulk Submission '' @ str_nat (n + 1),
      school = BulkUploadRequest.school data, class' = ''Bulk'',
      q1 = BulkSubmissionItem.q1 submission,
      q2 = BulkSubmissionItem.q2 submission,
      q3 = BulkSubmissionItem.q3 submission,
      q4 = BulkSubmissionItem.q4 submission,
      q5 = BulkSubmissionItem.q5 submission,
      q6 = BulkSubmissionItem.q6 submission,
      q7 = BulkSubmissionItem.q7 submission,
      q8 = BulkSubmissionItem.q8 submission,
      q9 = BulkSubmissionItem.q9 submission,
      q10 = BulkSubmissionItem.q10 submission,
      q11 = BulkSubmissionItem.q11 submission,
      q12 = BulkSubmissionItem.q12 submission,
      q13 = BulkSubmissionItem.q13 submission,
      c1 = BulkSubmissionItem.c1 submission,
      c2 = BulkSubmissionItem.c2 submission,
      c3 = BulkSubmissionItem.c3 submission,
      c4 = BulkSubmissionItem.c4 submission,
      c5 = BulkSubmissionItem.c5 submission, created_at = isoformat\<rparr>"

fun bulk_loop ::
  "(nat \<Rightarrow> string) \<Rightarrow> (nat \<Rightarrow> string) \<Rightarrow> BulkUploadRequest \<Rightarrow> nat \<Rightarrow>
   BulkSubmissionItem list \<Rightarrow> quiz list \<Rightarrow> quiz list" where
  "bulk_loop timestamp isoformat data i [] submissions = submissions"
| "bulk_loop timestamp isoformat data i (submission # rest) submissions =
     bulk_loop timestamp isoformat data (Suc i) rest
       (submissions @
          [new_submission (timestamp i) (isoformat i) data submission (length submissions)])"

definition bulk_upload_quiz ::
  "(nat \<Rightarrow> string) \<Rightarrow> (nat \<Rightarrow> string) \<Rightarrow> BulkUploadRequest \<Rightarrow> quiz list \<Rightarrow> quiz list \<times> json" where
  "bulk_upload_quiz timestamp isoformat data submissions =
     (bulk_loop timestamp isoformat data 0 (BulkUploadRequest.submissions' data) submissions,
      JObj [(''message'',
             JStr (''Successfully uploaded '' @
                   str_nat (length (BulkUploadRequest.submissions' data)) @
                   '' quiz submissions''))])"

section \<open>Chapter observations\<close>

text \<open>
  \<^verbatim>\<open>update_observation\<close>. \<open>body_chapter\<close> and \<open>body_data\<close> are \<^verbatim>\<open>body.get("chapter")\<close> and
  \<^verbatim>\<open>body.get("data")\<close>: \<open>None\<close> when the key is absent, the chapter a string as in the data
  model, the data any JSON value. \<^verbatim>\<open>not chapter or not data\<close> is Python's truth test.
\<close>

definition update_observation ::
  "string \<Rightarrow> string option \<Rightarrow> json option \<Rightarrow> observation list \<Rightarrow>
   observation list \<times> (http_error + json)" where
  "update_observation now body_chapter body_data observations =
     (if (case body_chapter of None \<Rightarrow> True | Some chapter \<Rightarrow> chapter = []) \<or>
         (case body_data of None \<Rightarrow> True | Some data \<Rightarrow> \<not> truthy data) then
        (observations,
         Inl (HTTPException 400
                (''Missing '' @ [CHR 0x27] @ ''chapter'' @ [CHR 0x27] @ '' or '' @
                 [CHR 0x27] @ ''data'' @ [CHR 0x27])))
      else
        let chapter = the body_chapter;
            data = the body_data;
            existing_observation =
              find_one observations (\<lambda>item. obs_chapter item = chapter)
        in ((if existing_observation \<noteq> None then
               snd (update_one observations (\<lambda>item. obs_chapter item = chapter)
                      (\<lambda>item. item\<lparr>obs_data := data, obs_updated_at := now\<rparr>))
             else observations @
                    [\<lparr>obs_chapter = chapter, obs_data = data, obs_updated_at = now\<rparr>]),
            Inr (JObj [(''message'', JStr ''Observation data added or updated'')])))"

section \<open>Sending a PDF\<close>

type_synonym byte = "8 word"

text \<open>\<^verbatim>\<open>bytes.hex()\<close>: two lower-case hexadecimal digits for each byte.\<close>

definition hex_digit :: "nat \<Rightarrow> char" where
  "hex_digit n = ''0123456789abcdef'' ! n"

definition hex :: "byte list \<Rightarrow> string" where
  "hex file_data =
     concat (map (\<lambda>b. [hex_digit (unat b div 16), hex_digit (unat b mod 16)]) file_data)"

text \<open>
  \<^verbatim>\<open>bytes.fromhex(s)\<close>: ASCII whitespace between bytes is skipped, each byte is two
  hexadecimal digits of either case, and anything else is a \<^verbatim>\<open>ValueError\<close> (\<open>None\<close>).
\<close>

definition hex_value :: "char \<Rightarrow> nat option" where
  "hex_value c =
     (let n = (of_char c :: nat)
      in if 48 \<le> n \<and> n \<le> 57 then Some (n - 48)
         else if 97 \<le> n \<and> n \<le> 102 then Some (n - 87)
         else if 65 \<le> n \<and> n \<le> 70 then Some (n - 55)
         else None)"

definition is_space :: "char \<Rightarrow> bool" where
  "is_space c = ((of_char c :: nat) \<in> {9, 10, 11, 12, 13, 32})"

fun fromhex :: "string \<Rightarrow> byte list option" where
  "fromhex [] = Some []"
| "fromhex [c] = (if is_space c then Some [] else None)"
| "fromhex (c # d # s) =
     (if is_space c then fromhex (d # s)
      else (case (hex_value c, hex_value d) of
              (Some h, Some l) \<Rightarrow>
                (case fromhex s of
                   None \<Rightarrow> None
                 | Some file_data \<Rightarrow> Some (of_nat (16 * h + l) # file_data))
            | _ \<Rightarrow> None))"

text \<open>
  \<^verbatim>\<open>send_pdf_via_gmail\<close>. The SMTP session is the parameter \<open>smtp\<close>: given the attachment and
  the recipient it returns \<open>None\<close> when the message was sent and \<open>Some e\<close> when an exception
  with text \<open>e\<close> was raised inside the \<^verbatim>\<open>try\<close>. The sender password of the source is a
  non-empty literal, so its first \<^verbatim>\<open>return\<close> is never taken.
\<close>

definition send_pdf_via_gmail ::
  "(byte list \<Rightarrow> string \<Rightarrow> string option) \<Rightarrow> byte list \<Rightarrow> string \<Rightarrow> string" where
  "send_pdf_via_gmail smtp pdf_data recipient_email =
     (case smtp pdf_data recipient_email of
        None \<Rightarrow> ''PDF sent successfully''
      | Some e \<Rightarrow> ''Failed to send PDF: '' @ e)"

text \<open>
  \<^verbatim>\<open>send_pdf\<close>. The result is the content of \<^verbatim>\<open>pdf_files.json\<close> after the call, the bytes
  handed to \<^verbatim>\<open>send_pdf_via_gmail\<close> (\<open>None\<close> when the handler stopped before the call), and the
  response; a \<^verbatim>\<open>ValueError\<close> of \<^verbatim>\<open>bytes.fromhex\<close> would leave the handler as a status 500.
\<close>

definition send_pdf ::
  "(byte list \<Rightarrow> string \<Rightarrow> string option) \<Rightarrow> string \<Rightarrow> string \<Rightarrow> byte list \<Rightarrow> string \<Rightarrow>
   pdf_entry list \<Rightarrow> pdf_entry list \<times> byte list option \<times> (http_error + json)" where
  "send_pdf smtp now filename file_data email_arg pdf_files =
     (let pdf_entry = \<lparr>pdf_filename = filename,
                       pdf_content = hex file_data,
                       pdf_email = email_arg,
                       pdf_uploaded_at = now\<rparr>;
          pdf_files' = pdf_files @ [pdf_entry]
      in (case fromhex (pdf_content pdf_entry) of
            None \<Rightarrow> (pdf_files', None, Inl (HTTPException 500 ''Internal Server Error''))
          | Some file_data' \<Rightarrow>
              (pdf_files', Some file_data',
               Inr (JObj [(''message'', JStr (send_pdf_via_gmail smtp file_data' email_arg))]))))"

section \<open>Example data\<close>

text \<open>
  A stored submission with the given email, chapter and \<^verbatim>\<open>q1\<close> sequence, every other question
  unanswered; the theorems' concrete instances are built from it.
\<close>

definition example_quiz :: "string \<Rightarrow> string \<Rightarrow> int list \<Rightarrow> quiz" where
  "example_quiz e c q =
     \<lparr>email = e, chapter' = c, name = ''Asha'', school = ''Hill School'', class' = ''5'',
      q1 = q, q2 = [], q3 = [], q4 = [], q5 = [], q6 = [], q7 = [], q8 = [], q9 = [],
      q10 = [], q11 = [], q12 = [], q13 = [], c1 = 0, c2 = 0, c3 = 0, c4 = 0, c5 = 0,
      created_at = ''2024-01-01T00:00:00''\<rparr>"

text \<open>
  The two submissions of the specification's example, the statistics their \<^verbatim>\<open>q1\<close> gets, and a
  user of the chapter \<^verbatim>\<open>ALL_Chapter\<close>.
\<close>

definition example_submissions :: "quiz list" where
  "example_submissions =
     [example_quiz ''a@x.org'' ''C1'' [1, 0, 1], example_quiz ''b@x.org'' ''C1'' [1, 1]]"

definition example_q1_stats :: json where
  "example_q1_stats =
     JObj [(''total_submissions'', JInt 2),
           (''rides'', JObj
              [(''ride_0'', JObj [(''ones'', JInt 2), (''zeros'', JInt 0), (''total'', JInt 2)]),
               (''ride_1'', JObj [(''ones'', JInt 1), (''zeros'', JInt 1), (''total'', JInt 2)]),
               (''ride_2'', JObj [(''ones'', JInt 1), (''zeros'', JInt 0), (''total'', JInt 1)]),
               (''ride_3'', JObj [(''ones'', JInt 0), (''zeros'', JInt 0), (''total'', JInt 0)]),
               (''ride_4'', JObj [(''ones'', JInt 0), (''zeros'', JInt 0), (''total'', JInt 0)]),
               (''ride_5'', JObj [(''ones'', JInt 0), (''zeros'', JInt 0), (''total'', JInt 0)]),
               (''ride_6'', JObj [(''ones'', JInt 0), (''zeros'', JInt 0), (''total'', JInt 0)])])]"

definition example_admin :: user where
  "example_admin = \<lparr>user.email = ''admin@x.org'', user_id = ''u-1'',
     user.chapter' = ''ALL_Chapter'', user.created_at = ''2024-01-01T00:00:00''\<rparr>"

text \<open>A request body and a bulk item with the given \<^verbatim>\<open>q1\<close>, and a stored duplicate.\<close>

definition example_payload :: "string \<Rightarrow> string \<Rightarrow> int list \<Rightarrow> QuizSubmission" where
  "example_payload e c q =
     \<lparr>QuizSubmission.email = e, QuizSubmission.chapter' = c, QuizSubmission.name = ''Asha'',
      QuizSubmission.school = ''Hill School'', QuizSubmission.class' = ''5'',
      QuizSubmission.q1 = q, QuizSubmission.q2 = [], QuizSubmission.q3 = [],
      QuizSubmission.q4 = [], QuizSubmission.q5 = [], QuizSubmission.q6 = [],
      QuizSubmission.q7 = [], QuizSubmission.q8 = [], QuizSubmission.q9 = [],
      QuizSubmission.q10 = [], QuizSubmission.q11 = [], QuizSubmission.q12 = [],
      QuizSubmission.q13 = [], QuizSubmission.c1 = 0, QuizSubmission.c2 = 0,
      QuizSubmission.c3 = 0, QuizSubmission.c4 = 0, QuizSubmission.c5 = 0\<rparr>"

definition example_item :: "int list \<Rightarrow> BulkSubmissionItem" where
  "example_item q =
     \<lparr>BulkSubmissionItem.q1 = q, BulkSubmissionItem.q2 = [], BulkSubmissionItem.q3 = [],
      BulkSubmissionItem.q4 = [], BulkSubmissionItem.q5 = [], BulkSubmissionItem.q6 = [],
      BulkSubmissionItem.q7 = [], BulkSubmissionItem.q8 = [], BulkSubmissionItem.q9 = [],
      BulkSubmissionItem.q10 = [], BulkSubmissionItem.q11 = [], BulkSubmissionItem.q12 = [],
      BulkSubmissionItem.q13 = [], BulkSubmissionItem.c1 = 0, BulkSubmissionItem.c2 = 0,
      BulkSubmissionItem.c3 = 0, BulkSubmissionItem.c4 = 0, BulkSubmissionItem.c5 = 0\<rparr>"

text \<open>
  A bulk request of two items; the submissions after an upload whose email has the form of a
  bulk email, followed by a bulk upload at the moment and set size that email names; and the
  detail text of \<^verbatim>\<open>update_observation\<close>'s status 400.
\<close>

definition example_bulk :: BulkUploadRequest where
  "example_bulk =
     \<lparr>BulkUploadRequest.chapter' = ''C1'', BulkUploadRequest.school = ''Hill School'',
      submissions' = [example_item [1, 1], example_item [0]]\<rparr>"

definition duplicate_submissions :: "quiz list" where
  "duplicate_submissions =
     fst (bulk_upload_quiz (\<lambda>i. ''1700000000.5'') (\<lambda>i. ''2023-11-14T22:13:20.500000'')
            \<lparr>BulkUploadRequest.chapter' = ''C1'', BulkUploadRequest.school = ''Hill School'',
             submissions' = [example_item [1, 1]]\<rparr>
            (fst (upload_quiz ''2023-11-14T22:00:00''
                    (example_payload ''bulk_1700000000.5_1'' ''C1'' [1]) [])))"

definition missing_detail :: string where
  "missing_detail = ''Missing '' @ [CHR 0x27] @ ''chapter'' @ [CHR 0x27] @ '' or '' @
                 [CHR 0x27] @ ''data'' @ [CHR 0x27]"

section \<open>Facts about the helpers\<close>

lemma find_one_None_iff: "find_one xs P = None \<longleftrightarrow> (\<forall>x\<in>set xs. \<not> P x)"
  by (induction xs) auto

lemma q_keys: "map q_key [1..<14] =
  [''q1'', ''q2'', ''q3'', ''q4'', ''q5'', ''q6'', ''q7'', ''q8'', ''q9'', ''q10'', ''q11'',
   ''q12'', ''q13'']"
  by code_simp

lemma ride_keys: "map ride_key [0..<7] =
  [''ride_0'', ''ride_1'', ''ride_2'', ''ride_3'', ''ride_4'', ''ride_5'', ''ride_6'']"
  by code_simp

lemma digit_inj: "a < 10 \<Longrightarrow> b < 10 \<Longrightarrow> ''0123456789'' ! a = ''0123456789'' ! b \<Longrightarrow> a = b"
proof -
  have d: "distinct ''0123456789''" by simp
  assume "a < 10" "b < 10" "''0123456789'' ! a = ''0123456789'' ! b"
  then show ?thesis using d by (simp add: nth_eq_iff_index_eq)
qed

lemma str_nat_nonempty: "str_nat n \<noteq> []"
  by (subst str_nat.simps) simp

lemma str_nat_small: "n < 10 \<Longrightarrow> str_nat n = [''0123456789'' ! n]"
  by (subst str_nat.simps) simp

lemma str_nat_big: "\<not> n < 10 \<Longrightarrow> str_nat n = str_nat (n div 10) @ [''0123456789'' ! (n mod 10)]"
  by (subst str_nat.simps) simp

lemma str_nat_inj: "str_nat m = str_nat n \<Longrightarrow> m = n"
proof (induction m arbitrary: n rule: str_nat.induct)
  case (1 m)
  show ?case
  proof (cases "m < 10")
    case m: True
    show ?thesis
    proof (cases "n < 10")
      case True
      with m "1.prems" show ?thesis by (simp add: str_nat_small digit_inj)
    next
      case False
      with m "1.prems" str_nat_nonempty [of "n div 10"] show ?thesis
        by (simp add: str_nat_small str_nat_big)
    qed
  next
    case m: False
    show ?thesis
    proof (cases "n < 10")
      case True
      with m "1.prems" str_nat_nonempty [of "m div 10"] show ?thesis
        by (simp add: str_nat_small str_nat_big)
    next
      case False
      with m "1.prems" have e: "str_nat (m div 10) = str_nat (n div 10)"
        and l: "''0123456789'' ! (m mod 10) = ''0123456789'' ! (n mod 10)"
        by (simp_all add: str_nat_big)
      from "1.IH" [OF m e] have "m div 10 = n div 10" .
      moreover from l have "m mod 10 = n mod 10" by (intro digit_inj) simp_all
      ultimately show ?thesis by (metis div_mult_mod_eq)
    qed
  qed
qed

lemma q_key_inj: "q_key m = q_key n \<Longrightarrow> m = n"
  by (simp add: q_key_def str_nat_inj)

lemma ride_key_inj: "ride_key m = ride_key n \<Longrightarrow> m = n"
  by (simp add: ride_key_def str_nat_inj)

lemma map_of_map_inj:
  assumes "\<And>a b. g a = g b \<Longrightarrow> a = b" and "k \<in> set ks"
  shows "map_of (map (\<lambda>x. (g x, f x)) ks) (g k) = Some (f k)"
  using assms(2) by (induction ks) (auto dest: assms(1))

lemma sum_list_ones: "sum_list (map (\<lambda>x. 1) xs) = int (length xs)"
  by (induction xs) simp_all

lemma chapter_nonempty:
  "(filter (\<lambda>s. quiz.chapter' s = c) submissions = [] \<and>
    find_one observations (\<lambda>item. obs_chapter item = c) = None) \<longleftrightarrow>
   \<not> ((\<exists>s\<in>set submissions. quiz.chapter' s = c) \<or> (\<exists>item\<in>set observations. obs_chapter item = c))"
  by (auto simp: filter_empty_conv find_one_None_iff)

lemma disjoint_counts:
  assumes "\<And>x. \<not> (P x \<and> Q x)"
  shows "length (filter P xs) + length (filter Q xs) \<le> length xs \<and>
         (length (filter P xs) + length (filter Q xs) = length xs \<longrightarrow>
            (\<forall>x\<in>set xs. P x \<or> Q x))"
proof (induction xs)
  case Nil
  show ?case by simp
next
  case (Cons x xs)
  have "\<not> (P x \<and> Q x)" by (rule assms)
  with Cons show ?case by auto
qed

section \<open>Properties of the chapter data\<close>

lemma ride_of_chapter_data:
  assumes "1 \<le> q" "q \<le> 13" "r < 7"
      and "(\<exists>s\<in>set submissions. quiz.chapter' s = chapter) \<or>
           (\<exists>item\<in>set observations. obs_chapter item = chapter)"
  shows "ride_of (chapter_data chapter submissions observations) q r =
     Some (JObj
       [(''ones'', JInt (int (length (filter (\<lambda>s. quiz.chapter' s = chapter \<and>
            r < length (getitem_q s q) \<and> getitem_q s q ! r = 1) submissions)))),
        (''zeros'', JInt (int (length (filter (\<lambda>s. quiz.chapter' s = chapter \<and>
            r < length (getitem_q s q) \<and> getitem_q s q ! r = 0) submissions)))),
        (''total'', JInt (int (length (filter (\<lambda>s. quiz.chapter' s = chapter \<and>
            r < length (getitem_q s q) \<and> getitem_q s q ! r = 1) submissions)) +
          int (length (filter (\<lambda>s. quiz.chapter' s = chapter \<and>
            r < length (getitem_q s q) \<and> getitem_q s q ! r = 0) submissions))))])"
proof -
  have ne: "\<not> (filter (\<lambda>s. quiz.chapter' s = chapter) submissions = [] \<and>
    find_one observations (\<lambda>item. obs_chapter item = chapter) = None)"
    using assms(4) by (simp only: chapter_nonempty not_not)
  have q: "q \<in> set [Suc 0..<14]" using assms by simp
  have r: "r \<in> set [0..<7]" using assms by simp
  show ?thesis
    unfolding chapter_data_def ride_of_def Let_def
    using ne
    by (simp add: map_of_map_inj [where g = q_key, OF q_key_inj q]
        map_of_map_inj [where g = ride_key, OF ride_key_inj r] sum_list_ones
        conj_commute conj_left_commute del: upt_rec_numeral)
qed


text \<open>
  C4. A chapter with no submission and no observation record: the specific-chapter branch
  returns exactly \<^verbatim>\<open>{chapter, total_submissions: 0, question_stats: {}, observation: null}\<close>.
\<close>

theorem chapter_data_empty:
  assumes "\<forall>s\<in>set submissions. quiz.chapter' s \<noteq> chapter"
      and "\<forall>item\<in>set observations. obs_chapter item \<noteq> chapter"
  shows "chapter_data chapter submissions observations =
           JObj [(''chapter'', JStr chapter),
                 (''total_submissions'', JInt 0),
                 (''question_stats'', JObj []),
                 (''observation'', JNull)]"
proof -
  have "filter (\<lambda>s. quiz.chapter' s = chapter) submissions = []"
    using assms(1) by (simp add: filter_empty_conv)
  moreover have "find_one observations (\<lambda>item. obs_chapter item = chapter) = None"
    using assms(2) by (simp add: find_one_None_iff)
  ultimately show ?thesis
    by (simp add: chapter_data_def)
qed

theorem chapter_data_empty_witness:
  "chapter_data ''North''
     [example_quiz ''a@x.org'' ''South'' [1, 0, 1]]
     [\<lparr>obs_chapter = ''South'', obs_data = JStr ''calm'', obs_updated_at = ''2024-01-02''\<rparr>] =
   JObj [(''chapter'', JStr ''North''),
         (''total_submissions'', JInt 0),
         (''question_stats'', JObj []),
         (''observation'', JNull)]"
  using chapter_data_empty [of "[example_quiz ''a@x.org'' ''South'' [1, 0, 1]]" "''North''"
      "[\<lparr>obs_chapter = ''South'', obs_data = JStr ''calm'', obs_updated_at = ''2024-01-02''\<rparr>]"]
  by (simp add: example_quiz_def)

text \<open>
  C1. For a chapter with a submission or an observation, a question \<open>q\<close> in 1..13 and a ride
  \<open>r\<close> in 0..6, the specific-chapter result holds under \<^verbatim>\<open>q<q>\<close>, \<^verbatim>\<open>ride_<r>\<close> the number of
  the chapter's submissions whose \<open>q\<close>-th sequence is longer than \<open>r\<close> and has 1 at \<open>r\<close> as
  \<^verbatim>\<open>ones\<close>, the number of those with 0 at \<open>r\<close> as \<^verbatim>\<open>zeros\<close>, and their sum as \<^verbatim>\<open>total\<close>; a
  submission whose sequence is not longer than \<open>r\<close> changes none of the three. The instance
  is the specification's example: \<^verbatim>\<open>q1 = [1,0,1]\<close> and \<^verbatim>\<open>q1 = [1,1]\<close> give \<^verbatim>\<open>ride_0\<close> the counts
  2, 0, 2 and \<^verbatim>\<open>ride_2\<close> the counts 1, 0, 1.
\<close>

theorem chapter_data_ride_counts:
  assumes "1 \<le> q" "q \<le> 13" "r < 7"
      and "(\<exists>s\<in>set submissions. quiz.chapter' s = chapter) \<or>
           (\<exists>item\<in>set observations. obs_chapter item = chapter)"
  shows "ride_of (chapter_data chapter submissions observations) q r =
     Some (JObj
       [(''ones'', JInt (int (length (filter (\<lambda>s. quiz.chapter' s = chapter \<and>
            r < length (getitem_q s q) \<and> getitem_q s q ! r = 1) submissions)))),
        (''zeros'', JInt (int (length (filter (\<lambda>s. quiz.chapter' s = chapter \<and>
            r < length (getitem_q s q) \<and> getitem_q s q ! r = 0) submissions)))),
        (''total'', JInt (int (length (filter (\<lambda>s. quiz.chapter' s = chapter \<and>
            r < length (getitem_q s q) \<and> getitem_q s q ! r = 1) submissions)) +
          int (length (filter (\<lambda>s. quiz.chapter' s = chapter \<and>
            r < length (getitem_q s q) \<and> getitem_q s q ! r = 0) submissions))))]) \<and>
     (\<forall>s. length (getitem_q s q) \<le> r \<longrightarrow>
        ride_of (chapter_data chapter (submissions @ [s]) observations) q r =
        ride_of (chapter_data chapter submissions observations) q r)"
proof (intro conjI allI impI)
  show "ride_of (chapter_data chapter submissions observations) q r =
     Some (JObj
       [(''ones'', JInt (int (length (filter (\<lambda>s. quiz.chapter' s = chapter \<and>
            r < length (getitem_q s q) \<and> getitem_q s q ! r = 1) submissions)))),
        (''zeros'', JInt (int (length (filter (\<lambda>s. quiz.chapter' s = chapter \<and>
            r < length (getitem_q s q) \<and> getitem_q s q ! r = 0) submissions)))),
        (''total'', JInt (int (length (filter (\<lambda>s. quiz.chapter' s = chapter \<and>
            r < length (getitem_q s q) \<and> getitem_q s q ! r = 1) submissions)) +
          int (length (filter (\<lambda>s. quiz.chapter' s = chapter \<and>
            r < length (getitem_q s q) \<and> getitem_q s q ! r = 0) submissions))))])"
    by (rule ride_of_chapter_data [OF assms])
next
  fix s
  assume short: "length (getitem_q s q) \<le> r"
  have ne: "(\<exists>s'\<in>set (submissions @ [s]). quiz.chapter' s' = chapter) \<or>
            (\<exists>item\<in>set observations. obs_chapter item = chapter)"
    using assms(4) by auto
  show "ride_of (chapter_data chapter (submissions @ [s]) observations) q r =
        ride_of (chapter_data chapter submissions observations) q r"
    using short
    by (simp add: ride_of_chapter_data [OF assms] ride_of_chapter_data [OF assms(1-3) ne])
qed

theorem chapter_data_ride_counts_witness:
  "ride_of (chapter_data ''C1'' example_submissions []) 1 0 =
     Some (JObj [(''ones'', JInt 2), (''zeros'', JInt 0), (''total'', JInt 2)]) \<and>
   ride_of (chapter_data ''C1'' example_submissions []) 1 2 =
     Some (JObj [(''ones'', JInt 1), (''zeros'', JInt 0), (''total'', JInt 1)])"
  using chapter_data_ride_counts [of 1 0 example_submissions "''C1''" "[]"]
        chapter_data_ride_counts [of 1 2 example_submissions "''C1''" "[]"]
  by (simp add: example_submissions_def example_quiz_def getitem_q_def)

text \<open>
  C2. Every question/ride pair of a specific-chapter result is the pair of a question in 1..13
  and a ride in 0..6, its \<^verbatim>\<open>ones\<close> and \<^verbatim>\<open>zeros\<close> add up to its \<^verbatim>\<open>total\<close>, the total is at most
  the question's \<^verbatim>\<open>total_submissions\<close> (the number of the chapter's submissions), and the two
  are equal only when every submission of the chapter has a sequence longer than the ride
  index for that question.
\<close>

theorem ride_count_invariant:
  assumes "(qk, question_stats) \<in> set (question_stats_of (chapter_data chapter submissions observations))"
      and "(rk, ride) \<in> set (rides_of question_stats)"
  shows "\<exists>q r ones zeros total total_submissions.
           1 \<le> q \<and> q \<le> 13 \<and> qk = q_key q \<and> r < 7 \<and> rk = ride_key r \<and>
           ride = JObj [(''ones'', JInt ones), (''zeros'', JInt zeros), (''total'', JInt total)] \<and>
           jget question_stats ''total_submissions'' = Some (JInt total_submissions) \<and>
           total_submissions =
             int (length (filter (\<lambda>s. quiz.chapter' s = chapter) submissions)) \<and>
           ones + zeros = total \<and> total \<le> total_submissions \<and>
           (total = total_submissions \<longrightarrow>
              (\<forall>s\<in>set submissions. quiz.chapter' s = chapter \<longrightarrow> r < length (getitem_q s q)))"
proof -
  define cs where "cs = filter (\<lambda>s. quiz.chapter' s = chapter) submissions"
  define P where "P = (\<lambda>q r v (s::quiz). r < length (getitem_q s q) \<and> getitem_q s q ! r = (v::int))"
  define rd where "rd = (\<lambda>q r. (ride_key r,
      JObj [(''ones'', JInt (int (length (filter (P q r 1) cs)))),
            (''zeros'', JInt (int (length (filter (P q r 0) cs)))),
            (''total'', JInt (int (length (filter (P q r 1) cs)) + int (length (filter (P q r 0) cs))))]))"
  define qs where "qs = (\<lambda>q. (q_key q,
      JObj [(''total_submissions'', JInt (int (length cs))),
            (''rides'', JObj (map (rd q) [0..<7]))]))"
  have stats: "question_stats_of (chapter_data chapter submissions observations) =
      (if cs = [] \<and> find_one observations (\<lambda>item. obs_chapter item = chapter) = None then []
       else map qs [1..<14])"
    unfolding chapter_data_def question_stats_of_def Let_def qs_def rd_def P_def cs_def
    by (simp add: sum_list_ones del: upt_rec_numeral)
  from assms(1) obtain q where q: "q \<in> set [1..<14]" and e: "(qk, question_stats) = qs q"
    unfolding stats by (auto split: if_splits simp del: upt_rec_numeral)
  from e have qk: "qk = q_key q" and qst: "question_stats =
      JObj [(''total_submissions'', JInt (int (length cs))), (''rides'', JObj (map (rd q) [0..<7]))]"
    by (simp_all add: qs_def)
  from assms(2) obtain r where r: "r \<in> set [0..<7]" and e2: "(rk, ride) = rd q r"
    unfolding qst rides_of_def by (auto simp del: upt_rec_numeral)
  have d: "length (filter (P q r 1) cs) + length (filter (P q r 0) cs) \<le> length cs \<and>
         (length (filter (P q r 1) cs) + length (filter (P q r 0) cs) = length cs \<longrightarrow>
            (\<forall>x\<in>set cs. P q r 1 x \<or> P q r 0 x))"
    by (rule disjoint_counts) (simp add: P_def)
  have all: "length (filter (P q r 1) cs) + length (filter (P q r 0) cs) = length cs \<Longrightarrow>
      (\<forall>s\<in>set submissions. quiz.chapter' s = chapter \<longrightarrow> r < length (getitem_q s q))"
    using d by (auto simp: cs_def P_def)
  show ?thesis
  proof (intro exI conjI)
    show "1 \<le> q" "q \<le> 13" using q by simp_all
    show "qk = q_key q" by (rule qk)
    show "r < 7" using r by simp
    show "rk = ride_key r" using e2 by (simp add: rd_def)
    show "ride = JObj [(''ones'', JInt (int (length (filter (P q r 1) cs)))),
            (''zeros'', JInt (int (length (filter (P q r 0) cs)))),
            (''total'', JInt (int (length (filter (P q r 1) cs) + length (filter (P q r 0) cs))))]"
      using e2 by (simp add: rd_def)
    show "jget question_stats ''total_submissions'' = Some (JInt (int (length cs)))"
      by (simp add: qst)
    show "int (length cs) = int (length (filter (\<lambda>s. quiz.chapter' s = chapter) submissions))"
      by (simp add: cs_def)
    show "int (length (filter (P q r 1) cs)) + int (length (filter (P q r 0) cs)) =
          int (length (filter (P q r 1) cs) + length (filter (P q r 0) cs))" by simp
    show "int (length (filter (P q r 1) cs) + length (filter (P q r 0) cs)) \<le> int (length cs)"
      using d by simp
    show "int (length (filter (P q r 1) cs) + length (filter (P q r 0) cs)) = int (length cs) \<longrightarrow>
          (\<forall>s\<in>set submissions. quiz.chapter' s = chapter \<longrightarrow> r < length (getitem_q s q))"
      using all by simp
  qed
qed

theorem ride_count_invariant_witness:
  "(''q1'', example_q1_stats) \<in>
     set (question_stats_of (chapter_data ''C1'' example_submissions [])) \<and>
   (''ride_2'', JObj [(''ones'', JInt 1), (''zeros'', JInt 0), (''total'', JInt 1)]) \<in>
     set (rides_of example_q1_stats) \<and>
   (\<exists>q r ones zeros total total_submissions.
      1 \<le> q \<and> q \<le> 13 \<and> ''q1'' = q_key q \<and> r < 7 \<and> ''ride_2'' = ride_key r \<and>
      JObj [(''ones'', JInt 1), (''zeros'', JInt 0), (''total'', JInt 1)] =
        JObj [(''ones'', JInt ones), (''zeros'', JInt zeros), (''total'', JInt total)] \<and>
      jget example_q1_stats ''total_submissions'' = Some (JInt total_submissions) \<and>
      total_submissions =
        int (length (filter (\<lambda>s. quiz.chapter' s = ''C1'') example_submissions)) \<and>
      ones + zeros = total \<and> total \<le> total_submissions \<and>
      (total = total_submissions \<longrightarrow>
         (\<forall>s\<in>set example_submissions. quiz.chapter' s = ''C1'' \<longrightarrow>
            r < length (getitem_q s q))))"
proof -
  have h1: "(''q1'', example_q1_stats) \<in>
     set (question_stats_of (chapter_data ''C1'' example_submissions []))"
    by code_simp
  have h2: "(''ride_2'', JObj [(''ones'', JInt 1), (''zeros'', JInt 0), (''total'', JInt 1)]) \<in>
     set (rides_of example_q1_stats)"
    by (simp add: rides_of_def example_q1_stats_def)
  from h1 h2 ride_count_invariant [OF h1 h2] show ?thesis by (intro conjI)
qed

lemma all_chapter_data_keys:
  "map fst (all_chapter_data submissions observations) =
     sorted_list_of_set (set (map quiz.chapter' submissions) \<union> set (map obs_chapter observations))"
  by (simp add: all_chapter_data_def Let_def comp_def del: upt_rec_numeral)

lemma all_chapter_data_tl:
  "all_chapter_data submissions observations =
     map (\<lambda>c. (c, JObj (tl (entries (chapter_data c submissions observations)))))
       (sorted_list_of_set
          (set (map quiz.chapter' submissions) \<union> set (map obs_chapter observations)))"
  unfolding all_chapter_data_def Let_def
  apply (rule map_cong [OF refl])
  subgoal for c
    using chapter_nonempty [of c submissions observations]
    by (auto simp: chapter_data_def Let_def simp del: upt_rec_numeral)
  done

lemma map_of_map_self: "k \<in> set ks \<Longrightarrow> map_of (map (\<lambda>x. (x, f x)) ks) k = Some (f k)"
  by (induction ks) auto

lemma all_chapter_data_entry:
  assumes "(\<exists>s\<in>set submissions. quiz.chapter' s = c) \<or>
           (\<exists>item\<in>set observations. obs_chapter item = c)"
  shows "\<exists>fields. map_of (all_chapter_data submissions observations) c = Some (JObj fields) \<and>
           chapter_data c submissions observations = JObj ((''chapter'', JStr c) # fields)"
proof -
  have c: "c \<in> set (sorted_list_of_set
      (set (map quiz.chapter' submissions) \<union> set (map obs_chapter observations)))"
    using assms by auto
  have m: "map_of (all_chapter_data submissions observations) c =
      Some (JObj (tl (entries (chapter_data c submissions observations))))"
    by (subst all_chapter_data_tl) (rule map_of_map_self [OF c])
  have "chapter_data c submissions observations =
      JObj ((''chapter'', JStr c) # tl (entries (chapter_data c submissions observations)))"
    using chapter_nonempty [of c submissions observations] assms
    by (auto simp: chapter_data_def Let_def simp del: upt_rec_numeral)
  with m show ?thesis by blast
qed

lemma example_chapters:
  "map fst (all_chapter_data example_submissions []) = [''C1'']"
  by (simp add: all_chapter_data_keys example_submissions_def example_quiz_def)

text \<open>
  C3. For a user of the chapter \<^verbatim>\<open>ALL_Chapter\<close> the handler returns, under \<^verbatim>\<open>chapters\<close>, a
  dictionary whose keys are exactly the chapters of the submissions and the observations, each
  once and in lexicographic order. The value of a chapter is the specific-chapter result for
  that chapter without its first item, the key \<^verbatim>\<open>chapter\<close>: the loop of the branch stores
  \<^verbatim>\<open>total_submissions\<close>, \<^verbatim>\<open>question_stats\<close> and \<^verbatim>\<open>observation\<close> only. So the value is not equal to
  the specific-chapter result, as the last theorem shows on the example.
\<close>

theorem all_chapter_mapping:
  assumes "uid \<noteq> []"
      and "find_one users (\<lambda>item. user.user_id item = uid) = Some u"
      and "user.chapter' u = ''ALL_Chapter''"
  shows "\<exists>chapters.
           get_chapter_data (Some uid) users submissions observations =
             Inr (JObj [(''chapter'', JStr ''ALL_Chapter''), (''chapters'', JObj chapters)]) \<and>
           set (map fst chapters) =
             quiz.chapter' ` set submissions \<union> obs_chapter ` set observations \<and>
           distinct (map fst chapters) \<and> sorted (map fst chapters) \<and>
           (\<forall>c\<in>set (map fst chapters).
              \<exists>fields. map_of chapters c = Some (JObj fields) \<and>
                chapter_data c submissions observations = JObj ((''chapter'', JStr c) # fields))"
proof (rule exI [of _ "all_chapter_data submissions observations"], intro conjI ballI)
  show "get_chapter_data (Some uid) users submissions observations =
      Inr (JObj [(''chapter'', JStr ''ALL_Chapter''),
                 (''chapters'', JObj (all_chapter_data submissions observations))])"
    using assms by (simp add: get_chapter_data_def)
  show "set (map fst (all_chapter_data submissions observations)) =
      quiz.chapter' ` set submissions \<union> obs_chapter ` set observations"
    by (simp add: all_chapter_data_keys)
  show "distinct (map fst (all_chapter_data submissions observations))"
    by (simp add: all_chapter_data_keys)
  show "sorted (map fst (all_chapter_data submissions observations))"
    by (simp add: all_chapter_data_keys)
next
  fix c
  assume "c \<in> set (map fst (all_chapter_data submissions observations))"
  then have "(\<exists>s\<in>set submissions. quiz.chapter' s = c) \<or>
           (\<exists>item\<in>set observations. obs_chapter item = c)"
    by (auto simp: all_chapter_data_keys)
  then show "\<exists>fields. map_of (all_chapter_data submissions observations) c = Some (JObj fields) \<and>
      chapter_data c submissions observations = JObj ((''chapter'', JStr c) # fields)"
    by (rule all_chapter_data_entry)
qed

theorem all_chapter_mapping_witness:
  "\<exists>chapters.
     get_chapter_data (Some ''u-1'') [example_admin] example_submissions [] =
       Inr (JObj [(''chapter'', JStr ''ALL_Chapter''), (''chapters'', JObj chapters)]) \<and>
     map fst chapters = [''C1''] \<and>
     (\<exists>fields. map_of chapters ''C1'' = Some (JObj fields) \<and>
        chapter_data ''C1'' example_submissions [] = JObj ((''chapter'', JStr ''C1'') # fields))"
proof -
  have h: "find_one [example_admin] (\<lambda>item. user.user_id item = ''u-1'') = Some example_admin"
    by (simp add: example_admin_def)
  have a: "user.chapter' example_admin = ''ALL_Chapter''"
    by (simp add: example_admin_def)
  from all_chapter_mapping [OF _ h a, of example_submissions "[]"]
  obtain chapters where c:
    "get_chapter_data (Some ''u-1'') [example_admin] example_submissions [] =
       Inr (JObj [(''chapter'', JStr ''ALL_Chapter''), (''chapters'', JObj chapters)])"
    "\<forall>c\<in>set (map fst chapters).
        \<exists>fields. map_of chapters c = Some (JObj fields) \<and>
          chapter_data c example_submissions [] = JObj ((''chapter'', JStr c) # fields)"
    by auto
  have "get_chapter_data (Some ''u-1'') [example_admin] example_submissions [] =
     Inr (JObj [(''chapter'', JStr ''ALL_Chapter''),
                (''chapters'', JObj (all_chapter_data example_submissions []))])"
    using h a by (simp add: get_chapter_data_def)
  with c(1) have "chapters = all_chapter_data example_submissions []" by simp
  with example_chapters have k: "map fst chapters = [''C1'']" by simp
  with c(2) have f: "\<exists>fields. map_of chapters ''C1'' = Some (JObj fields) \<and>
        chapter_data ''C1'' example_submissions [] = JObj ((''chapter'', JStr ''C1'') # fields)"
    by simp
  show ?thesis by (rule exI [of _ chapters]) (intro conjI c(1) k f)
qed

theorem all_chapter_value_counterexample:
  "get_chapter_data (Some ''u-1'') [example_admin] example_submissions [] =
     Inr (JObj [(''chapter'', JStr ''ALL_Chapter''),
                (''chapters'', JObj (all_chapter_data example_submissions []))]) \<and>
   map fst (all_chapter_data example_submissions []) = [''C1''] \<and>
   map_of (all_chapter_data example_submissions []) ''C1'' \<noteq>
     Some (chapter_data ''C1'' example_submissions [])"
proof (intro conjI)
  show "get_chapter_data (Some ''u-1'') [example_admin] example_submissions [] =
     Inr (JObj [(''chapter'', JStr ''ALL_Chapter''),
                (''chapters'', JObj (all_chapter_data example_submissions []))])"
    by (simp add: get_chapter_data_def example_admin_def)
  show "map fst (all_chapter_data example_submissions []) = [''C1'']"
    by (rule example_chapters)
  have "(\<exists>s\<in>set example_submissions. quiz.chapter' s = ''C1'') \<or>
        (\<exists>item\<in>set []. obs_chapter item = ''C1'')"
    by (simp add: example_submissions_def example_quiz_def)
  from all_chapter_data_entry [OF this]
  show "map_of (all_chapter_data example_submissions []) ''C1'' \<noteq>
     Some (chapter_data ''C1'' example_submissions [])"
    by auto
qed

section \<open>Properties of the lookup by email\<close>

lemma find_one_filter: "(\<exists>y. find_one xs P = Some y) \<longleftrightarrow> filter P xs \<noteq> []"
  by (induction xs) auto

text \<open>
  C10. On the same submissions and email, \<^verbatim>\<open>/check-mail\<close> answers \<^verbatim>\<open>exists = true\<close> exactly
  when the list \<^verbatim>\<open>/email-data\<close> answers is not empty; the list holds the submissions with that
  email.
\<close>

theorem check_mail_iff_email_data:
  "\<exists>exists data.
     check_email_exists e submissions = JObj [(''exists'', JBool exists)] \<and>
     get_data_by_email e submissions = JObj [(''data'', JList data)] \<and>
     data = map quiz_json (filter (\<lambda>s. quiz.email s = e) submissions) \<and>
     (exists \<longleftrightarrow> data \<noteq> [])"
  by (simp add: check_email_exists_def get_data_by_email_def find_one_filter)

section \<open>Properties of signup\<close>

text \<open>
  C6. \<^verbatim>\<open>signup\<close> raises status 400 when a user with the email or a user with the chapter
  exists, and then leaves the users as they are; otherwise it appends one user, with the
  identifier the generator gave, and returns it. After a success every signup with the same
  email or the same chapter name is refused. (That the identifier differs from the existing
  ones is a property of \<^verbatim>\<open>uuid.uuid4()\<close>, an input here.)
\<close>

theorem signup_conflict:
  "((\<exists>u\<in>set users. user.email u = SignUpRequest.email request) \<or>
    (\<exists>u\<in>set users. user.chapter' u = chapter_name request) \<longrightarrow>
      (\<exists>detail. signup uuid4 now request users = (users, Inl (HTTPException 400 detail)))) \<and>
   (\<not> ((\<exists>u\<in>set users. user.email u = SignUpRequest.email request) \<or>
       (\<exists>u\<in>set users. user.chapter' u = chapter_name request)) \<longrightarrow>
      signup uuid4 now request users =
        (users @ [\<lparr>user.email = SignUpRequest.email request, user_id = uuid4,
                    user.chapter' = chapter_name request, user.created_at = now\<rparr>],
         Inr \<lparr>user.email = SignUpRequest.email request, user_id = uuid4,
               user.chapter' = chapter_name request, user.created_at = now\<rparr>) \<and>
      (\<forall>uuid4' now' request'.
         SignUpRequest.email request' = SignUpRequest.email request \<or>
         chapter_name request' = chapter_name request \<longrightarrow>
         (\<exists>detail. signup uuid4' now' request' (fst (signup uuid4 now request users)) =
            (fst (signup uuid4 now request users), Inl (HTTPException 400 detail)))))"
  by (auto simp: signup_def Let_def find_one_None_iff)

theorem signup_conflict_witness:
  "signup ''id-2'' ''2024-02-01T10:00:00'' \<lparr>SignUpRequest.email = ''b@x.org'', chapter_name = ''C1''\<rparr>
     [example_admin] =
     ([example_admin,
       \<lparr>user.email = ''b@x.org'', user_id = ''id-2'', user.chapter' = ''C1'',
        user.created_at = ''2024-02-01T10:00:00''\<rparr>],
      Inr \<lparr>user.email = ''b@x.org'', user_id = ''id-2'', user.chapter' = ''C1'',
            user.created_at = ''2024-02-01T10:00:00''\<rparr>) \<and>
   signup ''id-3'' ''2024-02-01T10:00:05'' \<lparr>SignUpRequest.email = ''b@x.org'', chapter_name = ''C1''\<rparr>
     [example_admin,
      \<lparr>user.email = ''b@x.org'', user_id = ''id-2'', user.chapter' = ''C1'',
       user.created_at = ''2024-02-01T10:00:00''\<rparr>] =
     ([example_admin,
       \<lparr>user.email = ''b@x.org'', user_id = ''id-2'', user.chapter' = ''C1'',
        user.created_at = ''2024-02-01T10:00:00''\<rparr>],
      Inl (HTTPException 400 ''Email already registered'')) \<and>
   signup ''id-4'' ''2024-02-01T10:00:09''
     \<lparr>SignUpRequest.email = ''c@x.org'', chapter_name = ''ALL_Chapter''\<rparr> [example_admin] =
     ([example_admin], Inl (HTTPException 400 ''Chapter already registered''))"
  using signup_conflict [of "[example_admin]"
          "\<lparr>SignUpRequest.email = ''b@x.org'', chapter_name = ''C1''\<rparr>"
          "''id-2''" "''2024-02-01T10:00:00''"]
        signup_conflict [of "[example_admin]"
          "\<lparr>SignUpRequest.email = ''c@x.org'', chapter_name = ''ALL_Chapter''\<rparr>"
          "''id-4''" "''2024-02-01T10:00:09''"]
  by (simp add: signup_def example_admin_def)

section \<open>Properties of sending a PDF\<close>

text \<open>Decoding the hex text of a file gives the file back.\<close>

lemma hex_digit_value:
  "\<forall>n\<in>set [0..<16]. hex_value (hex_digit n) = Some n \<and> \<not> is_space (hex_digit n) \<and>
     hex_digit n \<in> set ''0123456789abcdef''"
  by code_simp

lemma hex_digit_ok:
  assumes "n < 16"
  shows "hex_value (hex_digit n) = Some n" "\<not> is_space (hex_digit n)"
    "hex_digit n \<in> set ''0123456789abcdef''"
  using hex_digit_value assms by auto

lemma byte_div: "unat (b::byte) div 16 < 16"
proof -
  have "unat b < 256" using unsigned_less [of b, where ?'a = nat] by simp
  then show ?thesis by simp
qed

lemma fromhex_hex: "fromhex (hex file_data) = Some file_data"
proof (induction file_data)
  case Nil
  show ?case by (simp add: hex_def)
next
  case (Cons b bs)
  have "hex (b # bs) = hex_digit (unat b div 16) # hex_digit (unat b mod 16) # hex bs"
    by (simp add: hex_def)
  with Cons show ?case
    by (simp add: hex_digit_ok byte_div)
qed

lemma hex_chars: "set (hex file_data) \<subseteq> set ''0123456789abcdef''"
proof -
  have "hex_digit (unat b div 16) \<in> set ''0123456789abcdef'' \<and>
        hex_digit (unat b mod 16) \<in> set ''0123456789abcdef''" for b :: byte
    using hex_digit_ok(3) [of "unat b div 16"] hex_digit_ok(3) [of "unat b mod 16"] byte_div [of b]
    by simp
  then show ?thesis unfolding hex_def by auto
qed

text \<open>
  C9. \<^verbatim>\<open>send_pdf\<close> appends an entry whose content is the hex text of the file (characters
  \<^verbatim>\<open>0-9a-f\<close> only), hands \<^verbatim>\<open>send_pdf_via_gmail\<close> the bytes decoded from that text, which are
  the bytes of the file, and returns that function's message, the success text or the failure
  text, under \<^verbatim>\<open>message\<close> in an ordinary response: it never raises.
\<close>

theorem send_pdf_roundtrip:
  "send_pdf smtp now filename file_data e pdf_files =
     (pdf_files @ [\<lparr>pdf_filename = filename, pdf_content = hex file_data, pdf_email = e,
                     pdf_uploaded_at = now\<rparr>],
      Some file_data,
      Inr (JObj [(''message'', JStr (send_pdf_via_gmail smtp file_data e))])) \<and>
   fromhex (hex file_data) = Some file_data \<and>
   set (hex file_data) \<subseteq> set ''0123456789abcdef'' \<and>
   send_pdf_via_gmail smtp file_data e =
     (case smtp file_data e of
        None \<Rightarrow> ''PDF sent successfully''
      | Some err \<Rightarrow> ''Failed to send PDF: '' @ err)"
  using hex_chars [of file_data]
  by (simp add: send_pdf_def Let_def fromhex_hex send_pdf_via_gmail_def)

section \<open>Properties of the quiz upload\<close>

lemma update_one_first:
  "find_one xs P = Some x \<Longrightarrow>
     \<exists>pre post. xs = pre @ x # post \<and> (\<forall>y\<in>set pre. \<not> P y) \<and> P x \<and>
       update_one xs P f = (True, pre @ f x # post)"
proof (induction xs)
  case Nil
  then show ?case by simp
next
  case (Cons a xs)
  show ?case
  proof (cases "P a")
    case True
    with Cons.prems have "a = x" by simp
    with True show ?thesis by (intro exI [of _ "[]"] exI [of _ xs]) simp
  next
    case False
    with Cons.prems have "find_one xs P = Some x" by simp
    from Cons.IH [OF this] obtain pre post where
      "xs = pre @ x # post" "\<forall>y\<in>set pre. \<not> P y" "P x"
      "update_one xs P f = (True, pre @ f x # post)" by blast
    with False show ?thesis by (intro exI [of _ "a # pre"] exI [of _ post]) simp
  qed
qed

lemma dict_update_all: "dict_update item update = update"
  by (rule quiz.equality) (simp_all add: dict_update_def)

lemma upload_quiz_filter:
  assumes "length (filter (\<lambda>s. quiz.email s = QuizSubmission.email data) submissions) \<le> 1"
  shows "filter (\<lambda>s. quiz.email s = QuizSubmission.email data)
           (fst (upload_quiz now data submissions)) = [quiz_dict now data] \<and>
         filter (\<lambda>s. quiz.email s \<noteq> QuizSubmission.email data)
           (fst (upload_quiz now data submissions)) =
         filter (\<lambda>s. quiz.email s \<noteq> QuizSubmission.email data) submissions"
proof -
  let ?e = "QuizSubmission.email data"
  let ?P = "\<lambda>s. quiz.email s = ?e"
  have e: "quiz.email (quiz_dict now data) = ?e" by (simp add: quiz_dict_def)
  show ?thesis
  proof (cases "find_one submissions ?P")
    case None
    then have "filter ?P submissions = []" "filter (\<lambda>s. \<not> ?P s) submissions = submissions"
      by (auto simp: find_one_None_iff filter_empty_conv)
    with None e show ?thesis by (simp add: upload_quiz_def Let_def)
  next
    case (Some x)
    from update_one_first [OF Some, of "\<lambda>item. dict_update item (quiz_dict now data)"]
    obtain pre post where s: "submissions = pre @ x # post" and pre: "\<forall>y\<in>set pre. \<not> ?P y"
      and x: "?P x"
      and u: "update_one submissions ?P (\<lambda>item. dict_update item (quiz_dict now data)) =
                (True, pre @ quiz_dict now data # post)"
      by (auto simp: dict_update_all)
    from assms s x pre have "filter ?P post = []"
      by simp
    moreover from pre have "filter ?P pre = []" by (simp add: filter_empty_conv)
    moreover from pre have "filter (\<lambda>s. \<not> ?P s) pre = pre" by (simp add: filter_id_conv)
    ultimately show ?thesis
      using Some e u x s by (simp add: upload_quiz_def Let_def)
  qed
qed

text \<open>
  C5. When at most one stored submission has the email, two uploads with that email leave
  exactly one submission with it: the second payload, with \<^verbatim>\<open>created_at\<close> of the second call;
  the submissions with other emails are as before. \<^verbatim>\<open>update_one\<close> changes the first match
  only, so on a list that holds the email twice two records with it remain; such a list
  arises when a bulk upload synthesizes an email that an earlier upload already used, as
  the last theorem evaluates.
\<close>

theorem upload_twice_replaces:
  assumes "length (filter (\<lambda>s. quiz.email s = QuizSubmission.email data1) submissions) \<le> 1"
      and "QuizSubmission.email data2 = QuizSubmission.email data1"
  shows "filter (\<lambda>s. quiz.email s = QuizSubmission.email data1)
           (fst (upload_quiz now2 data2 (fst (upload_quiz now1 data1 submissions)))) =
           [\<lparr>email = QuizSubmission.email data2, chapter' = QuizSubmission.chapter' data2,
           name = QuizSubmission.name data2, school = QuizSubmission.school data2,
           class' = QuizSubmission.class' data2, q1 = QuizSubmission.q1 data2,
           q2 = QuizSubmission.q2 data2, q3 = QuizSubmission.q3 data2,
           q4 = QuizSubmission.q4 data2, q5 = QuizSubmission.q5 data2,
           q6 = QuizSubmission.q6 data2, q7 = QuizSubmission.q7 data2,
           q8 = QuizSubmission.q8 data2, q9 = QuizSubmission.q9 data2,
           q10 = QuizSubmission.q10 data2, q11 = QuizSubmission.q11 data2,
           q12 = QuizSubmission.q12 data2, q13 = QuizSubmission.q13 data2,
           c1 = QuizSubmission.c1 data2, c2 = QuizSubmission.c2 data2,
           c3 = QuizSubmission.c3 data2, c4 = QuizSubmission.c4 data2,
           c5 = QuizSubmission.c5 data2, created_at = now2\<rparr>] \<and>
         filter (\<lambda>s. quiz.email s \<noteq> QuizSubmission.email data1)
           (fst (upload_quiz now2 data2 (fst (upload_quiz now1 data1 submissions)))) =
         filter (\<lambda>s. quiz.email s \<noteq> QuizSubmission.email data1) submissions"
proof -
  let ?s1 = "fst (upload_quiz now1 data1 submissions)"
  from upload_quiz_filter [OF assms(1), of now1]
  have one: "filter (\<lambda>s. quiz.email s = QuizSubmission.email data1) ?s1 = [quiz_dict now1 data1]"
    and rest: "filter (\<lambda>s. quiz.email s \<noteq> QuizSubmission.email data1) ?s1 =
      filter (\<lambda>s. quiz.email s \<noteq> QuizSubmission.email data1) submissions"
    by simp_all
  from one have "length (filter (\<lambda>s. quiz.email s = QuizSubmission.email data2) ?s1) \<le> 1"
    by (simp add: assms(2))
  from upload_quiz_filter [OF this, of now2] rest show ?thesis
    by (simp add: assms(2) quiz_dict_def)
qed

theorem upload_twice_replaces_witness:
  "fst (upload_quiz ''2024-03-01T09:00:07'' (example_payload ''a@x.org'' ''C1'' [0, 0])
     (fst (upload_quiz ''2024-03-01T09:00:00'' (example_payload ''a@x.org'' ''C1'' [1, 1])
        [example_quiz ''b@x.org'' ''C1'' [1]]))) =
   [example_quiz ''b@x.org'' ''C1'' [1],
    (example_quiz ''a@x.org'' ''C1'' [0, 0])\<lparr>created_at := ''2024-03-01T09:00:07''\<rparr>]"
proof -
  have h1: "length (filter (\<lambda>s. quiz.email s =
        QuizSubmission.email (example_payload ''a@x.org'' ''C1'' [1, 1]))
      [example_quiz ''b@x.org'' ''C1'' [1]]) \<le> 1"
    by (simp add: example_payload_def example_quiz_def)
  have h2: "QuizSubmission.email (example_payload ''a@x.org'' ''C1'' [0, 0]) =
      QuizSubmission.email (example_payload ''a@x.org'' ''C1'' [1, 1])"
    by (simp add: example_payload_def)
  from upload_twice_replaces [OF h1 h2] show ?thesis
    by (simp add: upload_quiz_def Let_def quiz_dict_def example_payload_def example_quiz_def
        dict_update_def)
qed

theorem upload_twice_counterexample:
  "length (filter (\<lambda>s. quiz.email s = ''bulk_1700000000.5_1'')
     (fst (upload_quiz ''2024-03-01T09:00:07'' (example_payload ''bulk_1700000000.5_1'' ''C1'' [0, 0])
        (fst (upload_quiz ''2024-03-01T09:00:00''
                (example_payload ''bulk_1700000000.5_1'' ''C1'' [1, 1])
                duplicate_submissions))))) = 2"
  by (simp add: duplicate_submissions_def bulk_upload_quiz_def new_submission_def
      upload_quiz_def Let_def quiz_dict_def example_payload_def example_item_def
      dict_update_def str_nat.simps)

section \<open>Properties of the observation update\<close>

text \<open>
  C8. \<^verbatim>\<open>update_observation\<close> raises status 400 exactly when the chapter or the data is absent
  or false in Python's sense (\<^verbatim>\<open>null\<close>, \<^verbatim>\<open>false\<close>, \<^verbatim>\<open>0\<close>, an empty string, list or object), and
  then writes nothing. Otherwise the first observation of the chapter gets the data and the
  time and everything else stays, or, when there is none, a new observation is appended. A
  request with an empty object as data, or with an empty chapter name, has both fields and
  is refused all the same, as the last theorem evaluates.
\<close>

theorem update_observation_upsert:
  "(body_chapter = None \<or> body_chapter = Some [] \<or> body_data = None \<or>
    (\<exists>data. body_data = Some data \<and> \<not> truthy data) \<longrightarrow>
      (\<exists>detail. update_observation now body_chapter body_data observations =
         (observations, Inl (HTTPException 400 detail)))) \<and>
   (\<forall>chapter data.
      body_chapter = Some chapter \<and> chapter \<noteq> [] \<and> body_data = Some data \<and> truthy data \<longrightarrow>
      (\<exists>observations'.
         update_observation now body_chapter body_data observations =
           (observations', Inr (JObj [(''message'', JStr ''Observation data added or updated'')])) \<and>
         ((\<forall>item\<in>set observations. obs_chapter item \<noteq> chapter) \<longrightarrow>
            observations' = observations @
              [\<lparr>obs_chapter = chapter, obs_data = data, obs_updated_at = now\<rparr>]) \<and>
         ((\<exists>item\<in>set observations. obs_chapter item = chapter) \<longrightarrow>
            (\<exists>pre item post.
               observations = pre @ item # post \<and>
               (\<forall>x\<in>set pre. obs_chapter x \<noteq> chapter) \<and> obs_chapter item = chapter \<and>
               observations' =
                 pre @ item\<lparr>obs_data := data, obs_updated_at := now\<rparr> # post))))"
proof (intro conjI allI impI)
  assume "body_chapter = None \<or> body_chapter = Some [] \<or> body_data = None \<or>
    (\<exists>data. body_data = Some data \<and> \<not> truthy data)"
  then show "\<exists>detail. update_observation now body_chapter body_data observations =
         (observations, Inl (HTTPException 400 detail))"
    by (auto simp: update_observation_def split: option.splits)
next
  fix ch dat
  assume a: "body_chapter = Some ch \<and> ch \<noteq> [] \<and> body_data = Some dat \<and> truthy dat"
  let ?P = "\<lambda>item. obs_chapter item = ch"
  let ?f = "\<lambda>item. item\<lparr>obs_data := dat, obs_updated_at := now\<rparr>"
  show "\<exists>observations'.
         update_observation now body_chapter body_data observations =
           (observations', Inr (JObj [(''message'', JStr ''Observation data added or updated'')])) \<and>
         ((\<forall>item\<in>set observations. obs_chapter item \<noteq> ch) \<longrightarrow>
            observations' = observations @
              [\<lparr>obs_chapter = ch, obs_data = dat, obs_updated_at = now\<rparr>]) \<and>
         ((\<exists>item\<in>set observations. obs_chapter item = ch) \<longrightarrow>
            (\<exists>pre item post.
               observations = pre @ item # post \<and>
               (\<forall>x\<in>set pre. obs_chapter x \<noteq> ch) \<and> obs_chapter item = ch \<and>
               observations' =
                 pre @ item\<lparr>obs_data := dat, obs_updated_at := now\<rparr> # post))"
  proof (cases "find_one observations ?P")
    case None
    then have n: "\<forall>item\<in>set observations. obs_chapter item \<noteq> ch"
      by (simp add: find_one_None_iff)
    from None a have "update_observation now body_chapter body_data observations =
        (observations @ [\<lparr>obs_chapter = ch, obs_data = dat, obs_updated_at = now\<rparr>],
         Inr (JObj [(''message'', JStr ''Observation data added or updated'')]))"
      by (simp add: update_observation_def Let_def)
    with n show ?thesis by auto
  next
    case (Some x)
    from update_one_first [OF Some, of ?f] obtain pre post where
      s: "observations = pre @ x # post" and pre: "\<forall>y\<in>set pre. obs_chapter y \<noteq> ch"
      and x: "obs_chapter x = ch"
      and u: "update_one observations ?P ?f = (True, pre @ ?f x # post)"
      by blast
    from Some a u have "update_observation now body_chapter body_data observations =
        (pre @ ?f x # post,
         Inr (JObj [(''message'', JStr ''Observation data added or updated'')]))"
      by (simp add: update_observation_def Let_def)
    moreover have "\<not> (\<forall>item\<in>set observations. obs_chapter item \<noteq> ch)"
      using s x by auto
    ultimately show ?thesis using s pre x by blast
  qed
qed

theorem update_observation_upsert_witness:
  "update_observation ''2024-04-01T08:00:00'' None (Some (JStr ''calm'')) [] =
     ([], Inl (HTTPException 400 missing_detail)) \<and>
   update_observation ''2024-04-01T08:00:00'' (Some ''C1'') (Some (JStr ''calm''))
     [\<lparr>obs_chapter = ''C2'', obs_data = JInt 3, obs_updated_at = ''2024-01-02''\<rparr>,
      \<lparr>obs_chapter = ''C1'', obs_data = JInt 4, obs_updated_at = ''2024-01-03''\<rparr>] =
     ([\<lparr>obs_chapter = ''C2'', obs_data = JInt 3, obs_updated_at = ''2024-01-02''\<rparr>,
       \<lparr>obs_chapter = ''C1'', obs_data = JStr ''calm'', obs_updated_at = ''2024-04-01T08:00:00''\<rparr>],
      Inr (JObj [(''message'', JStr ''Observation data added or updated'')])) \<and>
   update_observation ''2024-04-01T08:00:00'' (Some ''C3'') (Some (JStr ''calm''))
     [\<lparr>obs_chapter = ''C2'', obs_data = JInt 3, obs_updated_at = ''2024-01-02''\<rparr>] =
     ([\<lparr>obs_chapter = ''C2'', obs_data = JInt 3, obs_updated_at = ''2024-01-02''\<rparr>,
       \<lparr>obs_chapter = ''C3'', obs_data = JStr ''calm'', obs_updated_at = ''2024-04-01T08:00:00''\<rparr>],
      Inr (JObj [(''message'', JStr ''Observation data added or updated'')]))"
  using update_observation_upsert [of None "Some (JStr ''calm'')" "''2024-04-01T08:00:00''" "[]"]
    update_observation_upsert [of "Some ''C1''" "Some (JStr ''calm'')" "''2024-04-01T08:00:00''"
     "[\<lparr>obs_chapter = ''C2'', obs_data = JInt 3, obs_updated_at = ''2024-01-02''\<rparr>,
      \<lparr>obs_chapter = ''C1'', obs_data = JInt 4, obs_updated_at = ''2024-01-03''\<rparr>]"]
  by (simp add: update_observation_def Let_def missing_detail_def)

theorem update_observation_counterexample:
  "update_observation ''2024-04-01T08:00:00'' (Some ''C1'') (Some (JObj [])) [] =
     ([], Inl (HTTPException 400 missing_detail)) \<and>
   update_observation ''2024-04-01T08:00:00'' (Some ''C1'') (Some (JInt 0)) [] =
     ([], Inl (HTTPException 400 missing_detail)) \<and>
   update_observation ''2024-04-01T08:00:00'' (Some '''') (Some (JStr ''calm'')) [] =
     ([], Inl (HTTPException 400 missing_detail))"
  by (simp add: update_observation_def missing_detail_def)

section \<open>Properties of the bulk upload\<close>

lemma bulk_loop_eq:
  "bulk_loop timestamp isoformat data i items submissions =
     submissions @
     map (\<lambda>k. new_submission (timestamp (i + k)) (isoformat (i + k)) data (items ! k)
                 (length submissions + k))
       [0..<length items]"
proof (induction items arbitrary: i submissions)
  case Nil
  show ?case by simp
next
  case (Cons item items)
  have "map (\<lambda>k. new_submission (timestamp (i + k)) (isoformat (i + k)) data ((item # items) ! k)
                 (length submissions + k)) [0..<length (item # items)] =
        new_submission (timestamp i) (isoformat i) data item (length submissions) #
        map (\<lambda>k. new_submission (timestamp (Suc i + k)) (isoformat (Suc i + k)) data (items ! k)
                 (length (submissions @ [new_submission (timestamp i) (isoformat i) data item
                    (length submissions)]) + k)) [0..<length items]"
    by (simp add: upt_conv_Cons map_Suc_upt [symmetric] del: upt_Suc)
  then show ?case by (simp add: Cons.IH)
qed

lemma str_nat_digits: "set (str_nat n) \<subseteq> set ''0123456789''"
proof (induction n rule: str_nat.induct)
  case (1 n)
  have d: "''0123456789'' ! k \<in> set ''0123456789''" if "k < 10" for k
    using that by (intro nth_mem) simp
  show ?case
  proof (cases "n < 10")
    case True
    then show ?thesis using d [of n] by (subst str_nat.simps) simp
  next
    case False
    with 1 d [of "n mod 10"] show ?thesis by (subst str_nat.simps) simp
  qed
qed

lemma no_underscore: "CHR ''_'' \<notin> set (str_nat n)"
  using str_nat_digits [of n] by auto

lemma split_at_last:
  assumes "c \<notin> set ys" "c \<notin> set ys'" "xs @ c # ys = xs' @ c # ys'"
  shows "ys = ys'"
  using assms
proof (induction xs arbitrary: xs')
  case Nil
  then show ?case by (cases xs') auto
next
  case (Cons a xs)
  then show ?case by (cases xs') auto
qed

lemma bulk_email_inj:
  assumes "t @ CHR ''_'' # str_nat m = t' @ CHR ''_'' # str_nat n"
  shows "m = n"
  using split_at_last [OF no_underscore no_underscore assms] by (rule str_nat_inj)

lemma bulk_emails_distinct:
  "distinct (map quiz.email
     (map (\<lambda>k. new_submission (timestamp k) (isoformat k) data (items ! k) (n + k)) [0..<m]))"
proof -
  have "inj_on (\<lambda>k. quiz.email (new_submission (timestamp k) (isoformat k) data (items ! k) (n + k)))
          (set [0..<m])"
    by (rule inj_onI) (auto simp: new_submission_def dest: bulk_email_inj)
  then show ?thesis by (simp add: distinct_map comp_def)
qed

text \<open>
  C7. A bulk upload of \<open>N\<close> items keeps the stored submissions and appends \<open>N\<close>: the \<open>k\<close>-th has
  the email \<^verbatim>\<open>bulk_<timestamp>_<size>\<close> with the size of the list at that moment, the name
  \<^verbatim>\<open>Bulk Submission <size + 1>\<close>, the class \<^verbatim>\<open>Bulk\<close>, the request's chapter and school and the
  item's answers. The \<open>N\<close> emails differ from one another, whatever the clock says, and the
  message reports \<open>N\<close>.
\<close>

theorem bulk_upload_appends:
  "length (fst (bulk_upload_quiz timestamp isoformat data submissions)) =
     length submissions + length (BulkUploadRequest.submissions' data) \<and>
   take (length submissions) (fst (bulk_upload_quiz timestamp isoformat data submissions)) =
     submissions \<and>
   (\<forall>k < length (BulkUploadRequest.submissions' data).
      fst (bulk_upload_quiz timestamp isoformat data submissions) ! (length submissions + k) =
        \<lparr>email = ''bulk_'' @ timestamp k @ ''_'' @ str_nat (length submissions + k),
              chapter' = BulkUploadRequest.chapter' data,
              name = ''Bulk Submission '' @ str_nat (length submissions + k + 1),
              school = BulkUploadRequest.school data, class' = ''Bulk'',
              q1 = BulkSubmissionItem.q1 (BulkUploadRequest.submissions' data ! k),
              q2 = BulkSubmissionItem.q2 (BulkUploadRequest.submissions' data ! k),
              q3 = BulkSubmissionItem.q3 (BulkUploadRequest.submissions' data ! k),
              q4 = BulkSubmissionItem.q4 (BulkUploadRequest.submissions' data ! k),
              q5 = BulkSubmissionItem.q5 (BulkUploadRequest.submissions' data ! k),
              q6 = BulkSubmissionItem.q6 (BulkUploadRequest.submissions' data ! k),
              q7 = BulkSubmissionItem.q7 (BulkUploadRequest.submissions' data ! k),
              q8 = BulkSubmissionItem.q8 (BulkUploadRequest.submissions' data ! k),
              q9 = BulkSubmissionItem.q9 (BulkUploadRequest.submissions' data ! k),
              q10 = BulkSubmissionItem.q10 (BulkUploadRequest.submissions' data ! k),
              q11 = BulkSubmissionItem.q11 (BulkUploadRequest.submissions' data ! k),
              q12 = BulkSubmissionItem.q12 (BulkUploadRequest.submissions' data ! k),
              q13 = BulkSubmissionItem.q13 (BulkUploadRequest.submissions' data ! k),
              c1 = BulkSubmissionItem.c1 (BulkUploadRequest.submissions' data ! k),
              c2 = BulkSubmissionItem.c2 (BulkUploadRequest.submissions' data ! k),
              c3 = BulkSubmissionItem.c3 (BulkUploadRequest.submissions' data ! k),
              c4 = BulkSubmissionItem.c4 (BulkUploadRequest.submissions' data ! k),
              c5 = BulkSubmissionItem.c5 (BulkUploadRequest.submissions' data ! k),
              created_at = isoformat k\<rparr>) \<and>
   distinct (map quiz.email
     (drop (length submissions) (fst (bulk_upload_quiz timestamp isoformat data submissions)))) \<and>
   snd (bulk_upload_quiz timestamp isoformat data submissions) =
     JObj [(''message'',
            JStr (''Successfully uploaded '' @
                  str_nat (length (BulkUploadRequest.submissions' data)) @
                  '' quiz submissions''))]"
proof -
  let ?items = "BulkUploadRequest.submissions' data"
  let ?new = "map (\<lambda>k. new_submission (timestamp k) (isoformat k) data (?items ! k)
                 (length submissions + k)) [0..<length ?items]"
  have r: "fst (bulk_upload_quiz timestamp isoformat data submissions) = submissions @ ?new"
    by (simp add: bulk_upload_quiz_def bulk_loop_eq)
  have "distinct (map quiz.email ?new)" by (rule bulk_emails_distinct)
  then show ?thesis
    unfolding r by (simp add: nth_append new_submission_def bulk_upload_quiz_def)
qed

theorem bulk_upload_appends_witness:
  "length (fst (bulk_upload_quiz (\<lambda>i. ''1700000000.5'') (\<lambda>i. ''2023-11-14T22:13:20.500000'')
      example_bulk [example_quiz ''a@x.org'' ''C1'' [1, 0, 1]])) = 3 \<and>
   bulk_upload_quiz (\<lambda>i. ''1700000000.5'') (\<lambda>i. ''2023-11-14T22:13:20.500000'') example_bulk
     [example_quiz ''a@x.org'' ''C1'' [1, 0, 1]] =
   ([example_quiz ''a@x.org'' ''C1'' [1, 0, 1],
     \<lparr>email = ''bulk_1700000000.5_1'', chapter' = ''C1'', name = ''Bulk Submission 2'', school = ''Hill School'',
     class' = ''Bulk'', q1 = [1, 1], q2 = [], q3 = [], q4 = [], q5 = [], q6 = [], q7 = [], q8 = [],
     q9 = [], q10 = [], q11 = [], q12 = [], q13 = [], c1 = 0, c2 = 0, c3 = 0, c4 = 0, c5 = 0,
     created_at = ''2023-11-14T22:13:20.500000''\<rparr>,
     \<lparr>email = ''bulk_1700000000.5_2'', chapter' = ''C1'', name = ''Bulk Submission 3'', school = ''Hill School'',
     class' = ''Bulk'', q1 = [0], q2 = [], q3 = [], q4 = [], q5 = [], q6 = [], q7 = [], q8 = [],
     q9 = [], q10 = [], q11 = [], q12 = [], q13 = [], c1 = 0, c2 = 0, c3 = 0, c4 = 0, c5 = 0,
     created_at = ''2023-11-14T22:13:20.500000''\<rparr>],
    JObj [(''message'', JStr ''Successfully uploaded 2 quiz submissions'')])"
proof -
  have e: "bulk_upload_quiz (\<lambda>i. ''1700000000.5'') (\<lambda>i. ''2023-11-14T22:13:20.500000'') example_bulk
     [example_quiz ''a@x.org'' ''C1'' [1, 0, 1]] =
   ([example_quiz ''a@x.org'' ''C1'' [1, 0, 1],
     \<lparr>email = ''bulk_1700000000.5_1'', chapter' = ''C1'', name = ''Bulk Submission 2'', school = ''Hill School'',
     class' = ''Bulk'', q1 = [1, 1], q2 = [], q3 = [], q4 = [], q5 = [], q6 = [], q7 = [], q8 = [],
     q9 = [], q10 = [], q11 = [], q12 = [], q13 = [], c1 = 0, c2 = 0, c3 = 0, c4 = 0, c5 = 0,
     created_at = ''2023-11-14T22:13:20.500000''\<rparr>,
     \<lparr>email = ''bulk_1700000000.5_2'', chapter' = ''C1'', name = ''Bulk Submission 3'', school = ''Hill School'',
     class' = ''Bulk'', q1 = [0], q2 = [], q3 = [], q4 = [], q5 = [], q6 = [], q7 = [], q8 = [],
     q9 = [], q10 = [], q11 = [], q12 = [], q13 = [], c1 = 0, c2 = 0, c3 = 0, c4 = 0, c5 = 0,
     created_at = ''2023-11-14T22:13:20.500000''\<rparr>],
    JObj [(''message'', JStr ''Successfully uploaded 2 quiz submissions'')])"
    by code_simp
  from bulk_upload_appends [of "\<lambda>i. ''1700000000.5''" "\<lambda>i. ''2023-11-14T22:13:20.500000''"
      example_bulk "[example_quiz ''a@x.org'' ''C1'' [1, 0, 1]]"]
  have "length (fst (bulk_upload_quiz (\<lambda>i. ''1700000000.5'') (\<lambda>i. ''2023-11-14T22:13:20.500000'')
      example_bulk [example_quiz ''a@x.org'' ''C1'' [1, 0, 1]])) =
      length [example_quiz ''a@x.org'' ''C1'' [1, 0, 1]] +
      length (BulkUploadRequest.submissions' example_bulk)"
    by (rule conjunct1)
  then have "length (fst (bulk_upload_quiz (\<lambda>i. ''1700000000.5'') (\<lambda>i. ''2023-11-14T22:13:20.500000'')
      example_bulk [example_quiz ''a@x.org'' ''C1'' [1, 0, 1]])) = 3"
    by (simp add: example_bulk_def)
  with e show ?thesis by (rule conjI [rotated])
qed

end
